theory Spec2Isabelle
  imports Complex_Main
begin

section \<open>Values, time and exceptions\<close>

text \<open>
  The models of \<^verbatim>\<open>src/models.py\<close> store amounts in \<^verbatim>\<open>db.Float\<close> columns and
  time stamps in \<^verbatim>\<open>db.DateTime\<close> columns. Amounts are idealised as real numbers
  (rounding of binary floating point is outside this development). A \<^verbatim>\<open>datetime\<close>
  is the number of microseconds since the epoch, so that comparison of two
  time stamps is comparison of integers and \<^verbatim>\<open>timedelta(days=n)\<close> is a fixed
  number of microseconds. A nullable column is an \<open>option\<close>.
\<close>

type_synonym datetime = int

definition timedelta_days :: "int \<Rightarrow> int" where
  "timedelta_days n = n * 86400000000"

text \<open>The exceptions that the modelled methods can let escape.\<close>

datatype error =
    AttributeError
  | JSONDecodeError
  | KeyError
  | RecursionError
  | TypeError
  | ValueError
  | ZeroDivisionError

definition and_then :: "error + 'a \<Rightarrow> ('a \<Rightarrow> error + 'b) \<Rightarrow> error + 'b" where
  "and_then m f = (case m of Inl e \<Rightarrow> Inl e | Inr v \<Rightarrow> f v)"

text \<open>Python's \<^verbatim>\<open>a / b\<close>: a zero divisor raises.\<close>

definition truediv :: "real \<Rightarrow> real \<Rightarrow> error + real" where
  "truediv a b = (if b = 0 then Inl ZeroDivisionError else Inr (a / b))"

text \<open>A list comprehension whose element expression may raise: the first
  exception ends the evaluation.\<close>

fun comprehension :: "('a \<Rightarrow> error + 'b) \<Rightarrow> 'a list \<Rightarrow> error + 'b list" where
  "comprehension f [] = Inr []"
| "comprehension f (x # xs) =
     and_then (f x) (\<lambda>y. and_then (comprehension f xs) (\<lambda>ys. Inr (y # ys)))"

section \<open>The rows of the store\<close>

text \<open>Only the columns that the modelled methods read are kept. Field names are
  prefixed by the class, since several classes share column names.\<close>

record tradeline =
  tl_id :: int
  tl_credit_limit :: real
  tl_interest_rate :: "real option"
  tl_issuer :: "string option"
  tl_account_type :: "string option"

record allocation =
  al_id :: int
  al_agent_id :: int
  al_tradeline_id :: int
  al_allocation_date :: "datetime option"
  al_credit_limit :: real
  al_is_active :: bool

record transaction =
  tx_id :: int
  tx_agent_id :: int
  tx_tradeline_allocation_id :: int
  tx_amount :: real
  tx_transaction_date :: "datetime option"
  tx_status :: string
  tx_balance_after :: "real option"

record repayment =
  rp_id :: int
  rp_agent_id :: int
  rp_tradeline_allocation_id :: int
  rp_amount :: real
  rp_due_date :: "datetime option"
  rp_payment_date :: "datetime option"
  rp_status :: string

text \<open>The arguments that \<^verbatim>\<open>record_tradeline_performance\<close> passes to the
  constructor of \<^verbatim>\<open>TradelinePerformance\<close>.\<close>

record tradeline_performance =
  tp_tradeline_id :: int
  current_balance :: real
  available_credit :: real
  utilization_rate :: real
  transaction_count :: nat
  transaction_volume :: real
  avg_transaction_amount :: real
  total_repayments :: real
  repayments_on_time :: nat
  repayments_late :: nat
  payment_ratio :: real
  risk_score :: real
  days_delinquent :: int
  interest_accrued :: real

record database =
  db_tradelines :: "tradeline list"
  db_allocations :: "allocation list"
  db_transactions :: "transaction list"
  db_repayments :: "repayment list"
  db_performance :: "tradeline_performance list"

section \<open>Class Repayment\<close>

text \<open>\<^verbatim>\<open>Repayment.is_late\<close> (models.py, 345-349). A \<^verbatim>\<open>datetime\<close> object is always
  truthy, so the test \<^verbatim>\<open>self.payment_date and self.due_date\<close> is that neither is
  \<^verbatim>\<open>None\<close>.\<close>

definition is_late :: "repayment \<Rightarrow> bool" where
  "is_late r =
     (case rp_payment_date r of
        None \<Rightarrow> False
      | Some payment_date \<Rightarrow>
          (case rp_due_date r of
             None \<Rightarrow> False
           | Some due_date \<Rightarrow> payment_date > due_date))"

text \<open>Class \<^verbatim>\<open>Repayment\<close> (models.py, 331-365) defines \<^verbatim>\<open>is_late\<close>, \<^verbatim>\<open>is_missed\<close>,
  \<^verbatim>\<open>update_status\<close> and \<^verbatim>\<open>__repr__\<close> and nothing else; \<^verbatim>\<open>days_overdue\<close> exists
  on \<^verbatim>\<open>DefiRepayment\<close> only. The call \<^verbatim>\<open>r.days_overdue()\<close> on a \<^verbatim>\<open>Repayment\<close> is
  therefore a failed attribute lookup.\<close>

definition days_overdue :: "repayment \<Rightarrow> error + int" where
  "days_overdue r = Inl AttributeError"

section \<open>TradelinePerformance.record_tradeline_performance\<close>

text \<open>\<^verbatim>\<open>Tradeline.query.get(tradeline_id)\<close>: the row with that primary key, if any.\<close>

definition query_get :: "tradeline list \<Rightarrow> int \<Rightarrow> tradeline option" where
  "query_get rows k = find (\<lambda>t. tl_id t = k) rows"

text \<open>The queries of the method. \<^verbatim>\<open>AIAgentAllocation.query.filter_by(tradeline_id=...,
  is_active=True)\<close> and the ids of its rows (lines 576-577):\<close>

definition active_allocation_ids :: "database \<Rightarrow> int \<Rightarrow> int list" where
  "active_allocation_ids db tradeline_id =
     map al_id (filter (\<lambda>a. al_tradeline_id a = tradeline_id \<and> al_is_active a)
                  (db_allocations db))"

text \<open>Completed transactions on those allocations (lines 587-590):\<close>

definition completed_transactions :: "database \<Rightarrow> int list \<Rightarrow> transaction list" where
  "completed_transactions db allocation_ids =
     filter (\<lambda>t. tx_tradeline_allocation_id t \<in> set allocation_ids
                 \<and> tx_status t = ''completed'') (db_transactions db)"

text \<open>Those of the last 30 days (lines 598-602); a row without a date does not
  satisfy the comparison.\<close>

definition recent_transactions :: "database \<Rightarrow> datetime \<Rightarrow> int list \<Rightarrow> transaction list" where
  "recent_transactions db now allocation_ids =
     filter (\<lambda>t. tx_tradeline_allocation_id t \<in> set allocation_ids
                 \<and> tx_status t = ''completed''
                 \<and> (case tx_transaction_date t of
                      None \<Rightarrow> False
                    | Some d \<Rightarrow> d \<ge> now - timedelta_days 30)) (db_transactions db)"

text \<open>Repayments whose status is paid or late (lines 609-612):\<close>

definition settled_repayments :: "database \<Rightarrow> int list \<Rightarrow> repayment list" where
  "settled_repayments db allocation_ids =
     filter (\<lambda>r. rp_tradeline_allocation_id r \<in> set allocation_ids
                 \<and> rp_status r \<in> set [''paid'', ''late'']) (db_repayments db)"

text \<open>The comprehension of lines 616 and 620:\<close>

definition late_repayments :: "repayment list \<Rightarrow> repayment list" where
  "late_repayments repayments = filter (\<lambda>r. rp_status r = ''late'' \<or> is_late r) repayments"

text \<open>The three components of the risk score (lines 627-629):\<close>

definition risk_utilization :: "real \<Rightarrow> real" where
  "risk_utilization m_utilization_rate = m_utilization_rate * 30"

definition risk_late_payments :: "nat \<Rightarrow> int" where
  "risk_late_payments m_repayments_late = min 40 (int m_repayments_late * 10)"

definition risk_payment_ratio :: "real \<Rightarrow> real" where
  "risk_payment_ratio m_payment_ratio = max 0 (30 - m_payment_ratio * 30)"

text \<open>Lines 586-653 of models.py: the metrics of the tradeline found for
  \<open>tradeline_id\<close>, with the ids of its active allocations, at clock reading
  \<open>now\<close>. Every division of the source
  whose divisor is not a literal goes through \<^const>\<open>truediv\<close>; the division of
  \<^verbatim>\<open>tradeline.interest_rate\<close>, a nullable column, by 100 is a \<^verbatim>\<open>TypeError\<close> on
  \<^verbatim>\<open>None\<close>.\<close>

definition compute_metrics ::
  "database \<Rightarrow> datetime \<Rightarrow> int \<Rightarrow> tradeline \<Rightarrow> int list
     \<Rightarrow> error + tradeline_performance" where
  "compute_metrics db now tradeline_id tradeline allocation_ids =
    (let transactions = completed_transactions db allocation_ids;
         total_balance = sum_list (map tx_amount transactions);
         m_available_credit = tl_credit_limit tradeline - total_balance
     in and_then (if tl_credit_limit tradeline > 0
                  then truediv total_balance (tl_credit_limit tradeline) else Inr 0)
       (\<lambda>m_utilization_rate.
     let recent = recent_transactions db now allocation_ids;
         m_transaction_count = length recent;
         m_transaction_volume = sum_list (map tx_amount recent)
     in and_then (if m_transaction_count > 0
                  then truediv m_transaction_volume (real m_transaction_count) else Inr 0)
       (\<lambda>m_avg_transaction_amount.
     let repayments = settled_repayments db allocation_ids;
         m_total_repayments = sum_list (map rp_amount repayments);
         m_repayments_on_time =
           length (filter (\<lambda>r. rp_status r = ''paid'' \<and> \<not> is_late r) repayments);
         m_repayments_late = length (late_repayments repayments)
     in and_then (if total_balance > 0 then truediv m_total_repayments total_balance else Inr 1)
       (\<lambda>m_payment_ratio.
     and_then (if late_repayments repayments \<noteq> []
               then and_then (comprehension days_overdue (late_repayments repayments))
                      (\<lambda>ds. Inr (sum_list ds))
               else Inr 0)
       (\<lambda>total_days_late.
     let m_risk_score = risk_utilization m_utilization_rate
                        + real_of_int (risk_late_payments m_repayments_late)
                        + risk_payment_ratio m_payment_ratio
     in and_then (case tl_interest_rate tradeline of
                    None \<Rightarrow> Inl TypeError
                  | Some interest_rate \<Rightarrow>
                      Inr ((total_balance * (interest_rate / 100) / 365) * 30))
       (\<lambda>m_interest_accrued.
     Inr \<lparr> tp_tradeline_id = tradeline_id,
           current_balance = total_balance,
           available_credit = m_available_credit,
           utilization_rate = m_utilization_rate,
           transaction_count = m_transaction_count,
           transaction_volume = m_transaction_volume,
           avg_transaction_amount = m_avg_transaction_amount,
           total_repayments = m_total_repayments,
           repayments_on_time = m_repayments_on_time,
           repayments_late = m_repayments_late,
           payment_ratio = m_payment_ratio,
           risk_score = m_risk_score,
           days_delinquent = total_days_late,
           interest_accrued = m_interest_accrued \<rparr>))))))"

text \<open>The whole class method (models.py, 565-658). The result is the returned
  object (\<open>None\<close> or the new record) with the store after the call; an escaping
  exception leaves the store as it was, since nothing has been added yet.\<close>

definition record_tradeline_performance ::
  "database \<Rightarrow> datetime \<Rightarrow> int \<Rightarrow> error + (tradeline_performance option \<times> database)" where
  "record_tradeline_performance db now tradeline_id =
    (case query_get (db_tradelines db) tradeline_id of
       None \<Rightarrow> Inr (None, db)
     | Some tradeline \<Rightarrow>
        (let allocation_ids = active_allocation_ids db tradeline_id
         in if allocation_ids = [] then Inr (None, db)
            else and_then (compute_metrics db now tradeline_id tradeline allocation_ids)
                   (\<lambda>performance.
                      Inr (Some performance,
                           db\<lparr>db_performance := db_performance db @ [performance]\<rparr>))))"

section \<open>JSON text and decoded values\<close>

text \<open>The value that \<^verbatim>\<open>json.loads\<close> returns.\<close>

datatype json =
    JNull
  | JBool bool
  | JNum real
  | JStr string
  | JList "json list"
  | JObj "(string \<times> json) list"

text \<open>The content of a \<^verbatim>\<open>db.Text\<close> column, by what the standard library's
  \<^verbatim>\<open>json.loads\<close> does with it. \<open>JsonText v\<close> is a string that it decodes to
  \<open>v\<close>. \<open>Rejected s e\<close> is a string \<open>s\<close> on which it raises \<open>e\<close>, one of
  \<^item> \<^verbatim>\<open>JSONDecodeError\<close>, for a text that the decoder finds not to be JSON (the
    empty string is one);
  \<^item> \<^verbatim>\<open>RecursionError\<close>, for a text nested deeper than the recursion limit of
    the interpreter, such as a hundred thousand opening brackets;
  \<^item> \<^verbatim>\<open>ValueError\<close>, for a text with an integer literal longer than the digit
    limit of \<^verbatim>\<open>int\<close>, such as five thousand digits followed by a letter.

  The last two are raised before the decoder has read the whole text, also on
  texts that are not JSON. \<^verbatim>\<open>JSONDecodeError\<close> is a subclass of \<^verbatim>\<open>ValueError\<close>: a
  handler for \<^verbatim>\<open>JSONDecodeError\<close> does not catch a plain \<^verbatim>\<open>ValueError\<close>.
  \<^verbatim>\<open>json.dumps\<close> of a decoded value is a text that decodes to that value again.\<close>

datatype stored_text = Rejected string error | JsonText json

fun json_loads :: "stored_text \<Rightarrow> error + json" where
  "json_loads (Rejected s e) = Inl e"
| "json_loads (JsonText v) = Inr v"

definition json_dumps :: "json \<Rightarrow> stored_text" where
  "json_dumps v = JsonText v"

text \<open>Truth value of a string: a JSON text has at least one character.\<close>

fun text_truthy :: "stored_text \<Rightarrow> bool" where
  "text_truthy (Rejected s e) = (s \<noteq> [])"
| "text_truthy (JsonText v) = True"

text \<open>Truth value and \<^verbatim>\<open>len\<close> of a decoded value. \<^verbatim>\<open>len\<close> of \<^verbatim>\<open>None\<close>, of a
  Boolean and of a number raises \<^verbatim>\<open>TypeError\<close>.\<close>

fun py_truthy :: "json \<Rightarrow> bool" where
  "py_truthy JNull = False"
| "py_truthy (JBool b) = b"
| "py_truthy (JNum x) = (x \<noteq> 0)"
| "py_truthy (JStr s) = (s \<noteq> [])"
| "py_truthy (JList vs) = (vs \<noteq> [])"
| "py_truthy (JObj kvs) = (kvs \<noteq> [])"

fun py_len :: "json \<Rightarrow> error + nat" where
  "py_len (JStr s) = Inr (length s)"
| "py_len (JList vs) = Inr (length vs)"
| "py_len (JObj kvs) = Inr (length kvs)"
| "py_len v = Inl TypeError"

section \<open>Class AIAgent\<close>

record ai_agent =
  ag_id :: int
  ag_created_date :: "datetime option"
  ag_credit_score :: int
  ag_credit_score_updated :: "datetime option"
  ag_credit_score_history :: "stored_text option"

text \<open>The dictionary \<^verbatim>\<open>agent_data\<close> that \<^verbatim>\<open>update_credit_score\<close> builds (models.py,
  205-239), one record per kind of entry.\<close>

record tradeline_entry =
  te_id :: int
  te_credit_limit :: real
  te_type :: "string option"
  te_issuer :: "string option"
  te_opened_date :: "datetime option"

record transaction_entry =
  xe_id :: int
  xe_amount :: real
  xe_tradeline_id :: "int option"
  xe_transaction_date :: "datetime option"
  xe_status :: string
  xe_balance_after :: "real option"

record repayment_entry =
  re_id :: int
  re_amount :: real
  re_due_date :: "datetime option"
  re_payment_date :: "datetime option"
  re_is_late :: bool

record agent_data =
  ad_id :: int
  ad_created_at :: "datetime option"
  ad_tradelines :: "tradeline_entry list"
  ad_transactions :: "transaction_entry list"
  ad_repayments :: "repayment_entry list"

text \<open>The relationships \<^verbatim>\<open>allocation.tradeline\<close> and \<^verbatim>\<open>tx.allocation\<close>: the row that
  the foreign key names, or \<^verbatim>\<open>None\<close>.\<close>

definition allocation_tradeline :: "database \<Rightarrow> allocation \<Rightarrow> tradeline option" where
  "allocation_tradeline db a = find (\<lambda>t. tl_id t = al_tradeline_id a) (db_tradelines db)"

definition transaction_allocation :: "database \<Rightarrow> transaction \<Rightarrow> allocation option" where
  "transaction_allocation db tx =
     find (\<lambda>a. al_id a = tx_tradeline_allocation_id tx) (db_allocations db)"

definition tradeline_entry_of :: "database \<Rightarrow> allocation \<Rightarrow> tradeline_entry" where
  "tradeline_entry_of db allocation =
     \<lparr> te_id = al_tradeline_id allocation,
       te_credit_limit = al_credit_limit allocation,
       te_type = (case allocation_tradeline db allocation of
                    Some t \<Rightarrow> tl_account_type t | None \<Rightarrow> None),
       te_issuer = (case allocation_tradeline db allocation of
                      Some t \<Rightarrow> tl_issuer t | None \<Rightarrow> None),
       te_opened_date = al_allocation_date allocation \<rparr>"

definition transaction_entry_of :: "database \<Rightarrow> transaction \<Rightarrow> transaction_entry" where
  "transaction_entry_of db tx =
     \<lparr> xe_id = tx_id tx,
       xe_amount = tx_amount tx,
       xe_tradeline_id = (case transaction_allocation db tx of
                            Some a \<Rightarrow> Some (al_tradeline_id a) | None \<Rightarrow> None),
       xe_transaction_date = tx_transaction_date tx,
       xe_status = tx_status tx,
       xe_balance_after = tx_balance_after tx \<rparr>"

text \<open>Line 235 repeats the comparison of \<^verbatim>\<open>Repayment.is_late\<close> inline.\<close>

definition repayment_entry_of :: "repayment \<Rightarrow> repayment_entry" where
  "repayment_entry_of rep =
     \<lparr> re_id = rp_id rep,
       re_amount = rp_amount rep,
       re_due_date = rp_due_date rep,
       re_payment_date = rp_payment_date rep,
       re_is_late = (case rp_payment_date rep of
                       None \<Rightarrow> False
                     | Some payment_date \<Rightarrow>
                         (case rp_due_date rep of
                            None \<Rightarrow> False
                          | Some due_date \<Rightarrow> payment_date > due_date)) \<rparr>"

definition build_agent_data :: "database \<Rightarrow> ai_agent \<Rightarrow> agent_data" where
  "build_agent_data db self =
     \<lparr> ad_id = ag_id self,
       ad_created_at = ag_created_date self,
       ad_tradelines = map (tradeline_entry_of db)
                         (filter (\<lambda>a. al_agent_id a = ag_id self) (db_allocations db)),
       ad_transactions = map (transaction_entry_of db)
                           (filter (\<lambda>t. tx_agent_id t = ag_id self) (db_transactions db)),
       ad_repayments = map repayment_entry_of
                         (filter (\<lambda>r. rp_agent_id r = ag_id self) (db_repayments db)) \<rparr>"

text \<open>Lines 250-253 and 271-274: the stored history as the methods read it. A
  missing or empty text is the empty list. The handler
  \<^verbatim>\<open>except (json.JSONDecodeError, TypeError)\<close> turns these two exceptions of
  \<^verbatim>\<open>json.loads\<close> into the empty list; any other exception escapes.\<close>

definition load_history :: "stored_text option \<Rightarrow> error + json" where
  "load_history stored =
     (case stored of
        None \<Rightarrow> Inr (JList [])
      | Some t \<Rightarrow>
          if text_truthy t
          then (case json_loads t of
                  Inl e \<Rightarrow> if e \<in> set [JSONDecodeError, TypeError]
                           then Inr (JList []) else Inl e
                | Inr v \<Rightarrow> Inr v)
          else Inr (JList []))"

section \<open>The scoring module\<close>

text \<open>\<^verbatim>\<open>modules/agent_credit.py\<close> (class \<^verbatim>\<open>AgentCreditScoring\<close>) is not among the
  sources; only its three call sites in models.py are. The score computation
  \<^verbatim>\<open>calculate_agent_credit_score\<close>, of which the specification gives the result
  shape only (a score with a component breakdown), is a parameter of the model of
  \<^verbatim>\<open>update_credit_score\<close>: a function from the agent data to a result or an
  exception.\<close>

record score_data =
  sd_score :: int
  sd_components :: json

text \<open>Modelled from the spec: the entry that the history keeps for one score.
  Section 3 describes the history as an ordered append-only list of
  {timestamp, score, components}.\<close>

definition history_entry :: "datetime \<Rightarrow> score_data \<Rightarrow> json" where
  "history_entry now score_data =
     JObj [(''timestamp'', JNum (real_of_int now)),
           (''score'', JNum (real_of_int (sd_score score_data))),
           (''components'', sd_components score_data)]"

text \<open>Modelled from the spec: \<^verbatim>\<open>AgentCreditScoring.track_agent_score_history\<close>, which
  is missing from the sources. Section 4.2: the returned score data is appended
  to the history by a history-tracking function, and the length is not capped.
  The specification describes the history as a list and gives no behaviour for
  another value; the model raises there, as appending to such a value would.
  The agent id is not read.\<close>

definition track_agent_score_history ::
  "datetime \<Rightarrow> int \<Rightarrow> score_data \<Rightarrow> json \<Rightarrow> error + json" where
  "track_agent_score_history now agent_id score_data history =
     (case history of
        JList entries \<Rightarrow> Inr (JList (entries @ [history_entry now score_data]))
      | _ \<Rightarrow> Inl AttributeError)"

text \<open>Modelled from the spec: the result of the trend analysis, which section 4.2
  describes as a trend with a direction and a magnitude.\<close>

record trend_summary =
  trend_direction :: real
  trend_magnitude :: real

text \<open>Modelled from the spec: the score of one history entry, an object with the
  keys timestamp, score and components (section 3).\<close>

fun entry_score :: "json \<Rightarrow> error + real" where
  "entry_score (JObj kvs) =
     (case map_of kvs ''score'' of
        None \<Rightarrow> Inl KeyError
      | Some (JNum x) \<Rightarrow> Inr x
      | Some _ \<Rightarrow> Inl TypeError)"
| "entry_score _ = Inl TypeError"

text \<open>Modelled from the spec: the consecutive score deltas of section 4.2.\<close>

fun score_deltas :: "real list \<Rightarrow> real list" where
  "score_deltas (x # y # zs) = (y - x) # score_deltas (y # zs)"
| "score_deltas _ = []"

text \<open>Modelled from the spec: \<^verbatim>\<open>AgentCreditScoring.analyze_score_trend\<close>, which is
  missing from the sources. Section 4.2, trend analysis: given at least two
  history points, it computes a trend (direction and magnitude) from consecutive
  score deltas. The model reads the score of every entry, takes the differences
  of neighbours, and reports the sign and the absolute value of their sum.\<close>

definition analyze_score_trend :: "json \<Rightarrow> error + trend_summary" where
  "analyze_score_trend history =
     (case history of
        JList entries \<Rightarrow>
          and_then (comprehension entry_score entries)
            (\<lambda>scores. Inr \<lparr> trend_direction = sgn (sum_list (score_deltas scores)),
                              trend_magnitude = abs (sum_list (score_deltas scores)) \<rparr>)
      | _ \<Rightarrow> Inl TypeError)"

section \<open>AIAgent.update_credit_score and AIAgent.get_credit_score_trend\<close>

text \<open>\<^verbatim>\<open>update_credit_score\<close> (models.py, 194-259) at clock reading \<open>now\<close>. The
  result pairs what the call returns or raises with the agent object after it:
  the score and its time stamp are assigned before the history is read, so an
  exception of \<^verbatim>\<open>json.loads\<close> or of the history tracker leaves them assigned.\<close>

definition update_credit_score ::
  "(agent_data \<Rightarrow> error + score_data) \<Rightarrow> database \<Rightarrow> datetime \<Rightarrow> ai_agent
     \<Rightarrow> (error + score_data) \<times> ai_agent" where
  "update_credit_score calculate_agent_credit_score db now self =
     (case calculate_agent_credit_score (build_agent_data db self) of
        Inl e \<Rightarrow> (Inl e, self)
      | Inr score_data \<Rightarrow>
          (let self1 = self\<lparr>ag_credit_score := sd_score score_data,
                           ag_credit_score_updated := Some now\<rparr>
           in case load_history (ag_credit_score_history self1) of
                Inl e \<Rightarrow> (Inl e, self1)
              | Inr history \<Rightarrow>
                  (case track_agent_score_history now (ag_id self1) score_data history of
                     Inl e \<Rightarrow> (Inl e, self1)
                   | Inr history' \<Rightarrow>
                       (Inr score_data,
                        self1\<lparr>ag_credit_score_history := Some (json_dumps history')\<rparr>))))"

text \<open>Successive calls on the same agent object, one per element of the list
  (the store and the clock of that call); the first exception ends the
  sequence.\<close>

fun update_credit_score_calls ::
  "(agent_data \<Rightarrow> error + score_data) \<Rightarrow> (database \<times> datetime) list \<Rightarrow> ai_agent
     \<Rightarrow> (error + score_data list) \<times> ai_agent" where
  "update_credit_score_calls scorer [] self = (Inr [], self)"
| "update_credit_score_calls scorer ((db, now) # calls) self =
     (case update_credit_score scorer db now self of
        (Inl e, self') \<Rightarrow> (Inl e, self')
      | (Inr score_data, self') \<Rightarrow>
          (case update_credit_score_calls scorer calls self' of
             (Inl e, self'') \<Rightarrow> (Inl e, self'')
           | (Inr rest, self'') \<Rightarrow> (Inr (score_data # rest), self'')))"

text \<open>\<^verbatim>\<open>get_credit_score_trend\<close> (models.py, 261-280). The test
  \<^verbatim>\<open>not history or len(history) < 2\<close> takes the length only of a truthy value.\<close>

definition get_credit_score_trend :: "ai_agent \<Rightarrow> error + trend_summary option" where
  "get_credit_score_trend self =
     and_then (load_history (ag_credit_score_history self))
       (\<lambda>history.
          if py_truthy history
          then and_then (py_len history)
                 (\<lambda>n. if n < 2 then Inr None
                      else and_then (analyze_score_trend history)
                             (\<lambda>trend. Inr (Some trend)))
          else Inr None)"

section \<open>Example stores and agents\<close>

text \<open>Day 19723 after the epoch is 2024-01-01, day 19737 is 2024-01-15. The
  examples are evaluated at the clock reading of day 19740.\<close>

definition example_now :: datetime where
  "example_now = timedelta_days 19740"

definition example_tradeline :: tradeline where
  "example_tradeline =
     \<lparr> tl_id = 1, tl_credit_limit = 10000, tl_interest_rate = Some 12,
       tl_issuer = None, tl_account_type = None \<rparr>"

definition example_allocation :: allocation where
  "example_allocation =
     \<lparr> al_id = 1, al_agent_id = 1, al_tradeline_id = 1, al_allocation_date = None,
       al_credit_limit = 10000, al_is_active = True \<rparr>"

definition example_transaction :: transaction where
  "example_transaction =
     \<lparr> tx_id = 1, tx_agent_id = 1, tx_tradeline_allocation_id = 1, tx_amount = 2500,
       tx_transaction_date = Some (timedelta_days 19730), tx_status = ''completed'',
       tx_balance_after = Some 2500 \<rparr>"

text \<open>A limit of 10000 with one completed transaction of 2500, and the record
  that the method creates for it.\<close>

definition scenario_db :: database where
  "scenario_db =
     \<lparr> db_tradelines = [example_tradeline], db_allocations = [example_allocation],
       db_transactions = [example_transaction], db_repayments = [], db_performance = [] \<rparr>"

definition scenario_snapshot :: tradeline_performance where
  "scenario_snapshot =
     \<lparr> tp_tradeline_id = 1, current_balance = 2500, available_credit = 7500,
       utilization_rate = 1 / 4, transaction_count = 1, transaction_volume = 2500,
       avg_transaction_amount = 2500, total_repayments = 0, repayments_on_time = 0,
       repayments_late = 0, payment_ratio = 0, risk_score = 75 / 2, days_delinquent = 0,
       interest_accrued = 1800 / 73 \<rparr>"

text \<open>The same store with a repayment due on 2024-01-01 and paid on 2024-01-15;
  \<^verbatim>\<open>process_repayment\<close> of app.py gives a processed repayment the status paid.\<close>

definition late_example_repayment :: repayment where
  "late_example_repayment =
     \<lparr> rp_id = 1, rp_agent_id = 1, rp_tradeline_allocation_id = 1, rp_amount = 2500,
       rp_due_date = Some (timedelta_days 19723),
       rp_payment_date = Some (timedelta_days 19737), rp_status = ''paid'' \<rparr>"

definition late_example_db :: database where
  "late_example_db = scenario_db\<lparr>db_repayments := [late_example_repayment]\<rparr>"

text \<open>A limit of 1000 and three completed transactions of 1000 each, none of them
  above the limit of the allocation.\<close>

definition over_limit_db :: database where
  "over_limit_db =
     \<lparr> db_tradelines = [example_tradeline\<lparr>tl_credit_limit := 1000\<rparr>],
       db_allocations = [example_allocation\<lparr>al_credit_limit := 1000\<rparr>],
       db_transactions =
         [example_transaction\<lparr>tx_amount := 1000, tx_balance_after := Some 1000\<rparr>,
          example_transaction\<lparr>tx_id := 2, tx_amount := 1000, tx_balance_after := Some 2000\<rparr>,
          example_transaction\<lparr>tx_id := 3, tx_amount := 1000, tx_balance_after := Some 3000\<rparr>],
       db_repayments = [], db_performance = [] \<rparr>"

definition over_limit_snapshot :: tradeline_performance where
  "over_limit_snapshot =
     \<lparr> tp_tradeline_id = 1, current_balance = 3000, available_credit = - 2000,
       utilization_rate = 3, transaction_count = 3, transaction_volume = 3000,
       avg_transaction_amount = 1000, total_repayments = 0, repayments_on_time = 0,
       repayments_late = 0, payment_ratio = 0, risk_score = 120, days_delinquent = 0,
       interest_accrued = 2160 / 73 \<rparr>"

text \<open>A tradeline whose limit is 0, without transactions, and one repayment of
  500 paid on its due date.\<close>

definition on_time_repayment :: repayment where
  "on_time_repayment =
     \<lparr> rp_id = 1, rp_agent_id = 1, rp_tradeline_allocation_id = 1, rp_amount = 500,
       rp_due_date = Some (timedelta_days 19723),
       rp_payment_date = Some (timedelta_days 19723), rp_status = ''paid'' \<rparr>"

definition zero_limit_db :: database where
  "zero_limit_db =
     \<lparr> db_tradelines = [example_tradeline\<lparr>tl_credit_limit := 0\<rparr>],
       db_allocations = [example_allocation],
       db_transactions = [], db_repayments = [on_time_repayment], db_performance = [] \<rparr>"

definition zero_limit_snapshot :: tradeline_performance where
  "zero_limit_snapshot =
     \<lparr> tp_tradeline_id = 1, current_balance = 0, available_credit = 0,
       utilization_rate = 0, transaction_count = 0, transaction_volume = 0,
       avg_transaction_amount = 0, total_repayments = 500, repayments_on_time = 1,
       repayments_late = 0, payment_ratio = 1, risk_score = 0, days_delinquent = 0,
       interest_accrued = 0 \<rparr>"

text \<open>The store of the scenario with four repayments that are late: two paid
  after the due date, two with the status late.\<close>

definition four_late_db :: database where
  "four_late_db =
     scenario_db\<lparr>db_repayments :=
       [late_example_repayment,
        late_example_repayment\<lparr>rp_id := 2\<rparr>,
        late_example_repayment\<lparr>rp_id := 3, rp_status := ''late''\<rparr>,
        late_example_repayment\<lparr>rp_id := 4, rp_status := ''late''\<rparr>]\<rparr>"

text \<open>A store with two tradelines. Tradeline 1 has the active allocation 1 and the
  inactive allocation 2; allocation 3 is of tradeline 2. Of the six
  transactions only the first is a completed one on an active allocation of
  tradeline 1: the second is pending, the third declined, the fourth is on the
  inactive allocation, the fifth on the allocation of tradeline 2, the sixth on
  an allocation that does not exist.\<close>

definition mixed_db :: database where
  "mixed_db =
     \<lparr> db_tradelines = [example_tradeline, example_tradeline\<lparr>tl_id := 2\<rparr>],
       db_allocations =
         [example_allocation,
          example_allocation\<lparr>al_id := 2, al_is_active := False\<rparr>,
          example_allocation\<lparr>al_id := 3, al_tradeline_id := 2\<rparr>],
       db_transactions =
         [example_transaction,
          example_transaction\<lparr>tx_id := 2, tx_amount := 300, tx_status := ''pending''\<rparr>,
          example_transaction\<lparr>tx_id := 3, tx_amount := 400, tx_status := ''declined''\<rparr>,
          example_transaction\<lparr>tx_id := 4, tx_tradeline_allocation_id := 2, tx_amount := 500\<rparr>,
          example_transaction\<lparr>tx_id := 5, tx_tradeline_allocation_id := 3, tx_amount := 600\<rparr>,
          example_transaction\<lparr>tx_id := 6, tx_tradeline_allocation_id := 99, tx_amount := 700\<rparr>],
       db_repayments = [], db_performance = [] \<rparr>"

text \<open>A store whose only allocation is inactive.\<close>

definition inactive_db :: database where
  "inactive_db = scenario_db\<lparr>db_allocations := [example_allocation\<lparr>al_is_active := False\<rparr>]\<rparr>"

text \<open>A repayment that has not been paid, in a store of its own.\<close>

definition unpaid_repayment :: repayment where
  "unpaid_repayment =
     \<lparr> rp_id = 2, rp_agent_id = 1, rp_tradeline_allocation_id = 1, rp_amount = 100,
       rp_due_date = Some (timedelta_days 19723), rp_payment_date = None,
       rp_status = ''scheduled'' \<rparr>"

definition unpaid_db :: database where
  "unpaid_db = scenario_db\<lparr>db_repayments := [unpaid_repayment]\<rparr>"

text \<open>Agents: one without history, one whose stored history is rejected as not
  being JSON, one whose stored history is a hundred thousand opening brackets,
  one with one entry and one with two; the score 600, the score 650, and a
  scorer that returns 600 for every agent.\<close>

definition example_agent :: ai_agent where
  "example_agent =
     \<lparr> ag_id = 1, ag_created_date = Some (timedelta_days 19700), ag_credit_score = 600,
       ag_credit_score_updated = None, ag_credit_score_history = None \<rparr>"

definition malformed_agent :: ai_agent where
  "malformed_agent =
     example_agent\<lparr>ag_credit_score_history :=
       Some (Rejected ''not json'' JSONDecodeError)\<rparr>"

definition deep_agent :: ai_agent where
  "deep_agent =
     example_agent\<lparr>ag_credit_score_history :=
       Some (Rejected (replicate 100000 CHR ''['') RecursionError)\<rparr>"

definition baseline_score :: score_data where
  "baseline_score = \<lparr> sd_score = 600, sd_components = JObj [] \<rparr>"

definition raised_score :: score_data where
  "raised_score = \<lparr> sd_score = 650, sd_components = JObj [] \<rparr>"

definition baseline_scorer :: "agent_data \<Rightarrow> error + score_data" where
  "baseline_scorer d = Inr baseline_score"

definition two_entry_agent :: ai_agent where
  "two_entry_agent =
     example_agent\<lparr>ag_credit_score_history :=
       Some (JsonText (JList [history_entry (timedelta_days 19730) baseline_score,
                              history_entry (timedelta_days 19737) raised_score]))\<rparr>"

definition one_entry_agent :: ai_agent where
  "one_entry_agent =
     example_agent\<lparr>ag_credit_score_history :=
       Some (JsonText (JList [history_entry (timedelta_days 19730) baseline_score]))\<rparr>"

section \<open>Facts about the performance record\<close>

lemmas example_defs = example_now_def example_tradeline_def example_allocation_def
  example_transaction_def scenario_db_def scenario_snapshot_def late_example_repayment_def
  late_example_db_def over_limit_db_def over_limit_snapshot_def on_time_repayment_def
  zero_limit_db_def zero_limit_snapshot_def inactive_db_def unpaid_repayment_def unpaid_db_def
  four_late_db_def mixed_db_def

lemmas query_defs = query_get_def active_allocation_ids_def completed_transactions_def
  recent_transactions_def settled_repayments_def late_repayments_def timedelta_days_def

lemmas risk_defs = risk_utilization_def risk_late_payments_def risk_payment_ratio_def

lemma comprehension_days_overdue:
  "rs \<noteq> [] \<Longrightarrow> comprehension days_overdue rs = Inl AttributeError"
  by (cases rs) (simp_all add: days_overdue_def and_then_def)

text \<open>The three outcomes of the metrics computation: a late repayment among the
  selected ones ends it at the call of \<^verbatim>\<open>days_overdue\<close>; otherwise a tradeline
  without interest rate ends it at the interest computation; otherwise the record
  is built, with no late repayment counted.\<close>

lemma compute_metrics_cases:
  "compute_metrics db now tid t ids =
    (if late_repayments (settled_repayments db ids) \<noteq> [] then Inl AttributeError
     else case tl_interest_rate t of
       None \<Rightarrow> Inl TypeError
     | Some ir \<Rightarrow> Inr \<lparr> tp_tradeline_id = tid,
           current_balance = sum_list (map tx_amount (completed_transactions db ids)),
           available_credit =
             tl_credit_limit t - sum_list (map tx_amount (completed_transactions db ids)),
           utilization_rate =
             (if tl_credit_limit t > 0
              then sum_list (map tx_amount (completed_transactions db ids)) / tl_credit_limit t
              else 0),
           transaction_count = length (recent_transactions db now ids),
           transaction_volume = sum_list (map tx_amount (recent_transactions db now ids)),
           avg_transaction_amount =
             (if length (recent_transactions db now ids) > 0
              then sum_list (map tx_amount (recent_transactions db now ids))
                   / real (length (recent_transactions db now ids))
              else 0),
           total_repayments = sum_list (map rp_amount (settled_repayments db ids)),
           repayments_on_time =
             length (filter (\<lambda>r. rp_status r = ''paid'' \<and> \<not> is_late r)
                       (settled_repayments db ids)),
           repayments_late = 0,
           payment_ratio =
             (if sum_list (map tx_amount (completed_transactions db ids)) > 0
              then sum_list (map rp_amount (settled_repayments db ids))
                   / sum_list (map tx_amount (completed_transactions db ids))
              else 1),
           risk_score =
             risk_utilization
               (if tl_credit_limit t > 0
                then sum_list (map tx_amount (completed_transactions db ids)) / tl_credit_limit t
                else 0)
             + real_of_int (risk_late_payments 0)
             + risk_payment_ratio
                 (if sum_list (map tx_amount (completed_transactions db ids)) > 0
                  then sum_list (map rp_amount (settled_repayments db ids))
                       / sum_list (map tx_amount (completed_transactions db ids))
                  else 1),
           days_delinquent = 0,
           interest_accrued =
             (sum_list (map tx_amount (completed_transactions db ids)) * (ir / 100) / 365)
             * 30 \<rparr>)"
  by (simp add: compute_metrics_def Let_def and_then_def truediv_def
        comprehension_days_overdue split: option.splits)

lemma compute_metrics_no_zero_division:
  "compute_metrics db now tid t ids \<noteq> Inl ZeroDivisionError"
  by (simp add: compute_metrics_cases split: option.splits)

lemma compute_metrics_Inr:
  assumes "compute_metrics db now tid t ids = Inr p"
  shows "current_balance p = sum_list (map tx_amount (completed_transactions db ids))"
    and "available_credit p = tl_credit_limit t - current_balance p"
    and "utilization_rate p =
           (if tl_credit_limit t > 0 then current_balance p / tl_credit_limit t else 0)"
    and "payment_ratio p =
           (if current_balance p > 0 then total_repayments p / current_balance p else 1)"
    and "total_repayments p = sum_list (map rp_amount (settled_repayments db ids))"
    and "repayments_late p = length (late_repayments (settled_repayments db ids))"
    and "risk_score p = risk_utilization (utilization_rate p)
                        + real_of_int (risk_late_payments (repayments_late p))
                        + risk_payment_ratio (payment_ratio p)"
    and "late_repayments (settled_repayments db ids) = []"
    and "days_delinquent p = 0"
  using assms by (auto simp add: compute_metrics_cases split: if_splits option.splits)

lemma record_Some:
  "record_tradeline_performance db now tid = Inr (Some p, db') \<longleftrightarrow>
     (\<exists>t. query_get (db_tradelines db) tid = Some t \<and> active_allocation_ids db tid \<noteq> []
        \<and> compute_metrics db now tid t (active_allocation_ids db tid) = Inr p
        \<and> db' = db\<lparr>db_performance := db_performance db @ [p]\<rparr>)"
  by (auto simp add: record_tradeline_performance_def Let_def and_then_def
        split: option.splits sum.splits)

lemma record_None:
  "record_tradeline_performance db now tid = Inr (None, db') \<longleftrightarrow>
     ((query_get (db_tradelines db) tid = None \<or> active_allocation_ids db tid = [])
      \<and> db' = db)"
  by (auto simp add: record_tradeline_performance_def Let_def and_then_def
        split: option.splits sum.splits)

lemma record_Inl:
  "record_tradeline_performance db now tid = Inl e \<longleftrightarrow>
     (\<exists>t. query_get (db_tradelines db) tid = Some t \<and> active_allocation_ids db tid \<noteq> []
        \<and> compute_metrics db now tid t (active_allocation_ids db tid) = Inl e)"
  by (auto simp add: record_tradeline_performance_def Let_def and_then_def
        split: option.splits sum.splits)

text \<open>Every selected late repayment makes the method raise, whatever else the
  store holds.\<close>

lemma late_repayment_raises:
  assumes "query_get (db_tradelines db) tid = Some t"
      and "active_allocation_ids db tid \<noteq> []"
      and "late_repayments (settled_repayments db (active_allocation_ids db tid)) \<noteq> []"
  shows "record_tradeline_performance db now tid = Inl AttributeError"
  using assms by (simp add: record_Inl compute_metrics_cases)

text \<open>Without one, and with an interest rate, the method returns a record.\<close>

lemma record_returns:
  assumes "query_get (db_tradelines db) tid = Some t"
      and "active_allocation_ids db tid \<noteq> []"
      and "late_repayments (settled_repayments db (active_allocation_ids db tid)) = []"
      and "tl_interest_rate t = Some ir"
  shows "\<exists>p. record_tradeline_performance db now tid
              = Inr (Some p, db\<lparr>db_performance := db_performance db @ [p]\<rparr>)"
  using assms by (simp add: record_Some compute_metrics_cases)

text \<open>A created record never counts a late repayment, so its late-payment
  component is 0.\<close>

lemma created_record_has_no_late:
  assumes "record_tradeline_performance db now tid = Inr (Some p, db')"
  shows "repayments_late p = 0"
    and "risk_score p = utilization_rate p * 30 + max 0 (30 - payment_ratio p * 30)"
proof -
  from assms obtain t where
    m: "compute_metrics db now tid t (active_allocation_ids db tid) = Inr p"
    by (auto simp add: record_Some)
  from compute_metrics_Inr(6) [OF m] compute_metrics_Inr(8) [OF m]
  show late: "repayments_late p = 0" by simp
  from compute_metrics_Inr(7) [OF m] late
  show "risk_score p = utilization_rate p * 30 + max 0 (30 - payment_ratio p * 30)"
    by (simp add: risk_defs)
qed


text \<open>Within the limit and with non-negative repayments the score is in range.\<close>

lemma risk_score_in_range:
  assumes "record_tradeline_performance db now tid = Inr (Some p, db')"
      and "0 \<le> utilization_rate p" and "utilization_rate p \<le> 1" and "0 \<le> payment_ratio p"
  shows "0 \<le> risk_score p \<and> risk_score p \<le> 100"
proof -
  from assms(1) obtain t where
    "compute_metrics db now tid t (active_allocation_ids db tid) = Inr p"
    by (auto simp add: record_Some)
  then have "risk_score p = risk_utilization (utilization_rate p)
                        + real_of_int (risk_late_payments (repayments_late p))
                        + risk_payment_ratio (payment_ratio p)"
    by (rule compute_metrics_Inr)
  with assms(2-4) show ?thesis
    by (simp add: risk_defs min_def max_def)
qed

text \<open>The example stores, evaluated.\<close>

lemma run_scenario:
  "record_tradeline_performance scenario_db example_now 1 =
     Inr (Some scenario_snapshot, scenario_db\<lparr>db_performance := [scenario_snapshot]\<rparr>)"
  by (simp add: record_tradeline_performance_def compute_metrics_def Let_def and_then_def
        truediv_def example_defs query_defs risk_defs is_late_def)

lemma run_over_limit:
  "record_tradeline_performance over_limit_db example_now 1 =
     Inr (Some over_limit_snapshot, over_limit_db\<lparr>db_performance := [over_limit_snapshot]\<rparr>)"
  by (simp add: record_tradeline_performance_def compute_metrics_def Let_def and_then_def
        truediv_def example_defs query_defs risk_defs is_late_def)

lemma run_zero_limit:
  "record_tradeline_performance zero_limit_db example_now 1 =
     Inr (Some zero_limit_snapshot, zero_limit_db\<lparr>db_performance := [zero_limit_snapshot]\<rparr>)"
  by (simp add: record_tradeline_performance_def compute_metrics_def Let_def and_then_def
        truediv_def example_defs query_defs risk_defs is_late_def)


lemma run_inactive:
  "record_tradeline_performance inactive_db example_now 1 = Inr (None, inactive_db)"
  by (simp add: record_tradeline_performance_def Let_def example_defs query_defs)

section \<open>The claims about the performance record\<close>

text \<open>C1. The claim: a repayment with both dates set and paid after its due date
  (due 2024-01-01, paid 2024-01-15) is late, its \<^verbatim>\<open>days_overdue()\<close> is 14, and
  \<^verbatim>\<open>record_tradeline_performance\<close> sums \<^verbatim>\<open>days_overdue()\<close> over the late repayments
  without raising. On the code the repayment is late, but class \<^verbatim>\<open>Repayment\<close> has no
  method \<^verbatim>\<open>days_overdue\<close>: the call raises \<^verbatim>\<open>AttributeError\<close>, and so does
  \<^verbatim>\<open>record_tradeline_performance\<close> on a store that holds this repayment.\<close>

theorem late_repayment_attribute_error:
  "is_late late_example_repayment
   \<and> days_overdue late_example_repayment = Inl AttributeError
   \<and> record_tradeline_performance late_example_db example_now 1 = Inl AttributeError"
  by (simp add: record_tradeline_performance_def compute_metrics_def Let_def and_then_def
        truediv_def example_defs query_defs is_late_def days_overdue_def)

text \<open>C2. The claim: every created record has the risk score
  utilization_rate * 30 + min(40, repayments_late * 10)
  + max(0, 30 - payment_ratio * 30), where for a late count of 4 or more the
  late-payment component is capped at 40. On the code a store with four late
  repayments, the boundary of the claim, makes \<^verbatim>\<open>record_tradeline_performance\<close>
  raise \<^verbatim>\<open>AttributeError\<close> at the call of \<^verbatim>\<open>days_overdue\<close>, before a risk
  score is computed: no record is created, and none ever is with a late count
  above 0.\<close>

theorem four_late_repayments_raise:
  "length (late_repayments
             (settled_repayments four_late_db (active_allocation_ids four_late_db 1))) = 4
   \<and> record_tradeline_performance four_late_db example_now 1 = Inl AttributeError"
  by (simp add: record_tradeline_performance_def compute_metrics_def Let_def and_then_def
        truediv_def example_defs query_defs is_late_def days_overdue_def)

text \<open>C3. The claim: the risk score of every created record lies in [0, 100]. On
  the code a balance of three times the limit gives the score 120.\<close>

theorem risk_score_exceeds_100:
  "record_tradeline_performance over_limit_db example_now 1 =
     Inr (Some over_limit_snapshot, over_limit_db\<lparr>db_performance := [over_limit_snapshot]\<rparr>)
   \<and> risk_score over_limit_snapshot = 120"
  by (simp add: record_tradeline_performance_def compute_metrics_def Let_def and_then_def
        truediv_def example_defs query_defs risk_defs is_late_def)

text \<open>C4. \<^verbatim>\<open>record_tradeline_performance\<close> never raises \<^verbatim>\<open>ZeroDivisionError\<close>; a
  record for a tradeline whose credit limit is at most 0 has utilization rate 0;
  a record whose current balance is at most 0 has payment ratio 1, whatever the
  repayments are.\<close>

theorem zero_denominators_guarded:
  "record_tradeline_performance db now tid \<noteq> Inl ZeroDivisionError
   \<and> (record_tradeline_performance db now tid = Inr (Some p, db') \<longrightarrow>
        (\<forall>t. query_get (db_tradelines db) tid = Some t \<longrightarrow> tl_credit_limit t \<le> 0
              \<longrightarrow> utilization_rate p = 0)
        \<and> (current_balance p \<le> 0 \<longrightarrow> payment_ratio p = 1))"
proof -
  have "record_tradeline_performance db now tid \<noteq> Inl ZeroDivisionError"
    by (simp add: record_Inl compute_metrics_no_zero_division)
  moreover have "utilization_rate p = 0"
    if "record_tradeline_performance db now tid = Inr (Some p, db')"
      and "query_get (db_tradelines db) tid = Some t" and "tl_credit_limit t \<le> 0" for t
  proof -
    from that(1,2) have "compute_metrics db now tid t (active_allocation_ids db tid) = Inr p"
      by (auto simp add: record_Some)
    from compute_metrics_Inr(3) [OF this] that(3) show ?thesis by simp
  qed
  moreover have "payment_ratio p = 1"
    if "record_tradeline_performance db now tid = Inr (Some p, db')"
      and "current_balance p \<le> 0"
  proof -
    from that(1) obtain t where
      "compute_metrics db now tid t (active_allocation_ids db tid) = Inr p"
      by (auto simp add: record_Some)
    from compute_metrics_Inr(4) [OF this] that(2) show ?thesis by simp
  qed
  ultimately show ?thesis by blast
qed

theorem zero_denominators_guarded_witness:
  "record_tradeline_performance zero_limit_db example_now 1 \<noteq> Inl ZeroDivisionError
   \<and> record_tradeline_performance zero_limit_db example_now 1 =
       Inr (Some zero_limit_snapshot, zero_limit_db\<lparr>db_performance := [zero_limit_snapshot]\<rparr>)
   \<and> query_get (db_tradelines zero_limit_db) 1 = Some (example_tradeline\<lparr>tl_credit_limit := 0\<rparr>)
   \<and> tl_credit_limit (example_tradeline\<lparr>tl_credit_limit := 0\<rparr>) \<le> 0
   \<and> utilization_rate zero_limit_snapshot = 0
   \<and> current_balance zero_limit_snapshot \<le> 0
   \<and> total_repayments zero_limit_snapshot = 500
   \<and> payment_ratio zero_limit_snapshot = 1"
proof -
  have q: "query_get (db_tradelines zero_limit_db) 1 = Some (example_tradeline\<lparr>tl_credit_limit := 0\<rparr>)"
    by (simp add: example_defs query_defs)
  have l: "tl_credit_limit (example_tradeline\<lparr>tl_credit_limit := 0\<rparr>) \<le> 0" by simp
  have b: "current_balance zero_limit_snapshot \<le> 0" by (simp add: zero_limit_snapshot_def)
  have r: "total_repayments zero_limit_snapshot = 500" by (simp add: zero_limit_snapshot_def)
  from zero_denominators_guarded [of zero_limit_db example_now 1 zero_limit_snapshot
      "zero_limit_db\<lparr>db_performance := [zero_limit_snapshot]\<rparr>"] run_zero_limit q l b r
  show ?thesis by blast
qed



text \<open>C6. \<^verbatim>\<open>record_tradeline_performance\<close> returns \<^verbatim>\<open>None\<close> exactly when the id names
  no tradeline or the tradeline has no active allocation; it raises nothing
  then, and the store is the one before the call.\<close>

theorem returns_none_iff:
  "((\<exists>db'. record_tradeline_performance db now tid = Inr (None, db'))
      \<longleftrightarrow> (query_get (db_tradelines db) tid = None \<or> active_allocation_ids db tid = []))
   \<and> (query_get (db_tradelines db) tid = None \<or> active_allocation_ids db tid = []
        \<longrightarrow> record_tradeline_performance db now tid = Inr (None, db))
   \<and> (record_tradeline_performance db now tid = Inr (None, db') \<longrightarrow> db' = db)"
  by (simp add: record_None)

theorem returns_none_iff_witness:
  "query_get (db_tradelines inactive_db) 2 = None
   \<and> record_tradeline_performance inactive_db example_now 2 = Inr (None, inactive_db)
   \<and> query_get (db_tradelines inactive_db) 1 = Some example_tradeline
   \<and> active_allocation_ids inactive_db 1 = []
   \<and> record_tradeline_performance inactive_db example_now 1 = Inr (None, inactive_db)
   \<and> active_allocation_ids scenario_db 1 = [1]
   \<and> (\<forall>db'. record_tradeline_performance scenario_db example_now 1 \<noteq> Inr (None, db'))"
proof -
  have a: "query_get (db_tradelines inactive_db) 2 = None"
    by (simp add: example_defs query_defs)
  have b: "query_get (db_tradelines inactive_db) 1 = Some example_tradeline"
    "active_allocation_ids inactive_db 1 = []"
    by (simp_all add: example_defs query_defs)
  have c: "query_get (db_tradelines scenario_db) 1 = Some example_tradeline"
    "active_allocation_ids scenario_db 1 = [1]"
    by (simp_all add: example_defs query_defs)
  from returns_none_iff [of inactive_db example_now 2 inactive_db]
    returns_none_iff [of inactive_db example_now 1 inactive_db]
    returns_none_iff [of scenario_db example_now 1 scenario_db] a b c
  show ?thesis by simp
qed


section \<open>Facts about the score history\<close>

lemmas agent_defs = example_agent_def malformed_agent_def deep_agent_def baseline_score_def
  raised_score_def baseline_scorer_def two_entry_agent_def one_entry_agent_def

text \<open>What the methods read from the stored text.\<close>

lemma load_history_decode_error:
  "load_history (Some (Rejected s JSONDecodeError)) = Inr (JList [])"
  by (simp add: load_history_def)

lemma load_history_escapes:
  assumes "s \<noteq> []" and "e \<noteq> JSONDecodeError" and "e \<noteq> TypeError"
  shows "load_history (Some (Rejected s e)) = Inl e"
  using assms by (simp add: load_history_def)

lemma load_history_dumps: "load_history (Some (json_dumps v)) = Inr v"
  by (simp add: load_history_def json_dumps_def)

text \<open>What is stored after a call that returns, in terms of what was stored
  before.\<close>

lemma update_credit_score_returns:
  assumes "scorer (build_agent_data db self) = Inr score_data"
      and "load_history (ag_credit_score_history self) = Inr (JList entries)"
  shows "update_credit_score scorer db now self =
           (Inr score_data,
            self\<lparr>ag_credit_score := sd_score score_data,
                 ag_credit_score_updated := Some now,
                 ag_credit_score_history :=
                   Some (json_dumps (JList (entries @ [history_entry now score_data])))\<rparr>)"
  using assms
  by (simp add: update_credit_score_def Let_def track_agent_score_history_def)


text \<open>An exception of \<^verbatim>\<open>json.loads\<close> that the handler does not catch leaves the
  method with the stored history untouched.\<close>

lemma update_credit_score_propagates:
  assumes "scorer (build_agent_data db self) = Inr score_data"
      and "load_history (ag_credit_score_history self) = Inl e"
  shows "update_credit_score scorer db now self =
           (Inl e, self\<lparr>ag_credit_score := sd_score score_data,
                        ag_credit_score_updated := Some now\<rparr>)"
  using assms
  by (simp add: update_credit_score_def Let_def)


text \<open>If the scorer returns at every call and the stored history reads as a
  list, the whole sequence of calls returns.\<close>

lemma update_credit_score_calls_total:
  assumes "\<And>d. \<exists>sd. scorer d = Inr sd"
      and "load_history (ag_credit_score_history self) = Inr (JList entries)"
  shows "\<exists>results self'. update_credit_score_calls scorer calls self = (Inr results, self')"
  using assms(2)
proof (induction calls arbitrary: self entries)
  case Nil
  then show ?case by simp
next
  case (Cons c calls)
  obtain db now where c: "c = (db, now)" by (cases c)
  from assms(1) obtain sd where sd: "scorer (build_agent_data db self) = Inr sd" by blast
  note step = update_credit_score_returns
    [where scorer = scorer and db = db and self = self and now = now, OF sd Cons.prems]
  let ?self1 = "snd (update_credit_score scorer db now self)"
  have "load_history (ag_credit_score_history ?self1)
          = Inr (JList (entries @ [history_entry now sd]))"
    by (simp add: step load_history_dumps)
  from Cons.IH [OF this] obtain rest self' where
    "update_credit_score_calls scorer calls ?self1 = (Inr rest, self')" by blast
  with step show ?case
    by (simp add: c)
qed

lemma comprehension_entry_score_Inr:
  "map entry_score entries = map Inr scores \<Longrightarrow> comprehension entry_score entries = Inr scores"
  by (induction entries arbitrary: scores) (auto simp add: and_then_def)

section \<open>The claims about the credit score\<close>

text \<open>C7, as amended. For an agent whose stored history is a string that
  \<^verbatim>\<open>json.loads\<close> rejects with \<^verbatim>\<open>JSONDecodeError\<close>, \<^verbatim>\<open>update_credit_score\<close> reads the
  history as empty and, when the scorer returns a score, returns that score
  without raising and stores a history of exactly one entry, the entry of the
  new score.\<close>

theorem malformed_history_rebuilt:
  assumes "ag_credit_score_history self = Some (Rejected s JSONDecodeError)"
      and "scorer (build_agent_data db self) = Inr score_data"
  shows "load_history (ag_credit_score_history self) = Inr (JList [])
         \<and> fst (update_credit_score scorer db now self) = Inr score_data
         \<and> load_history (ag_credit_score_history (snd (update_credit_score scorer db now self)))
             = Inr (JList [history_entry now score_data])"
proof -
  have e: "load_history (ag_credit_score_history self) = Inr (JList [])"
    by (simp add: assms(1) load_history_decode_error)
  from update_credit_score_returns
    [where scorer = scorer and db = db and self = self and now = now, OF assms(2) e] e
  show ?thesis
    by (simp add: load_history_dumps)
qed

theorem malformed_history_rebuilt_witness:
  "ag_credit_score_history malformed_agent = Some (Rejected ''not json'' JSONDecodeError)
   \<and> baseline_scorer (build_agent_data scenario_db malformed_agent) = Inr baseline_score
   \<and> fst (update_credit_score baseline_scorer scenario_db example_now malformed_agent)
       = Inr baseline_score
   \<and> load_history (ag_credit_score_history
        (snd (update_credit_score baseline_scorer scenario_db example_now malformed_agent)))
       = Inr (JList [history_entry example_now baseline_score])"
proof -
  have h: "ag_credit_score_history malformed_agent
             = Some (Rejected ''not json'' JSONDecodeError)"
    by (simp add: agent_defs)
  have s: "baseline_scorer (build_agent_data scenario_db malformed_agent) = Inr baseline_score"
    by (simp add: baseline_scorer_def)
  from malformed_history_rebuilt
    [where scorer = baseline_scorer and db = scenario_db and self = malformed_agent
       and now = example_now, OF h s] h s
  show ?thesis by simp
qed

text \<open>C7 as first stated, for every string that is not JSON, fails: on a hundred
  thousand opening brackets \<^verbatim>\<open>json.loads\<close> raises \<^verbatim>\<open>RecursionError\<close>, which the
  handler of line 252 does not catch. The scorer returns, yet the call raises,
  and the stored history is the string it was.\<close>

theorem deep_history_propagates:
  "ag_credit_score_history deep_agent
     = Some (Rejected (replicate 100000 CHR ''['') RecursionError)
   \<and> baseline_scorer (build_agent_data scenario_db deep_agent) = Inr baseline_score
   \<and> fst (update_credit_score baseline_scorer scenario_db example_now deep_agent)
       = Inl RecursionError
   \<and> ag_credit_score_history
       (snd (update_credit_score baseline_scorer scenario_db example_now deep_agent))
       = Some (Rejected (replicate 100000 CHR ''['') RecursionError)"
  by (simp add: update_credit_score_def Let_def load_history_def agent_defs)



text \<open>C9. For an agent whose stored history reads as a list,
  \<^verbatim>\<open>get_credit_score_trend\<close> returns \<^verbatim>\<open>None\<close>, without raising, when the list has
  no or one entry, and with two or more entries it returns what the trend
  analysis gives: for entries with numeric scores, the direction and the
  magnitude of the sum of the consecutive score deltas.\<close>

theorem trend_needs_two_entries:
  assumes "load_history (ag_credit_score_history self) = Inr (JList entries)"
  shows "(length entries < 2 \<longrightarrow> get_credit_score_trend self = Inr None)
         \<and> (2 \<le> length entries \<longrightarrow>
              get_credit_score_trend self
                = and_then (analyze_score_trend (JList entries)) (\<lambda>trend. Inr (Some trend)))
         \<and> (2 \<le> length entries \<longrightarrow> map entry_score entries = map Inr scores \<longrightarrow>
              get_credit_score_trend self
                = Inr (Some \<lparr> trend_direction = sgn (sum_list (score_deltas scores)),
                               trend_magnitude = abs (sum_list (score_deltas scores)) \<rparr>))"
proof -
  have a: "get_credit_score_trend self = Inr None" if "length entries < 2"
    using that assms by (simp add: get_credit_score_trend_def Let_def and_then_def)
  have b: "get_credit_score_trend self
             = and_then (analyze_score_trend (JList entries)) (\<lambda>trend. Inr (Some trend))"
    if "2 \<le> length entries"
    using that assms by (auto simp add: get_credit_score_trend_def Let_def and_then_def)
  have c: "and_then (analyze_score_trend (JList entries)) (\<lambda>trend. Inr (Some trend))
             = Inr (Some \<lparr> trend_direction = sgn (sum_list (score_deltas scores)),
                            trend_magnitude = abs (sum_list (score_deltas scores)) \<rparr>)"
    if "map entry_score entries = map Inr scores"
    using that
    by (simp add: analyze_score_trend_def comprehension_entry_score_Inr and_then_def)
  from a b c show ?thesis by simp
qed

theorem trend_needs_two_entries_witness:
  "load_history (ag_credit_score_history example_agent) = Inr (JList [])
   \<and> get_credit_score_trend example_agent = Inr None
   \<and> load_history (ag_credit_score_history one_entry_agent)
       = Inr (JList [history_entry (timedelta_days 19730) baseline_score])
   \<and> get_credit_score_trend one_entry_agent = Inr None
   \<and> load_history (ag_credit_score_history two_entry_agent)
       = Inr (JList [history_entry (timedelta_days 19730) baseline_score,
                     history_entry (timedelta_days 19737) raised_score])
   \<and> map entry_score [history_entry (timedelta_days 19730) baseline_score,
                       history_entry (timedelta_days 19737) raised_score]
       = map Inr [600, 650]
   \<and> get_credit_score_trend two_entry_agent
       = Inr (Some \<lparr> trend_direction = 1, trend_magnitude = 50 \<rparr>)"
proof -
  have h0: "load_history (ag_credit_score_history example_agent) = Inr (JList [])"
    by (simp add: agent_defs load_history_def)
  have h1: "load_history (ag_credit_score_history one_entry_agent)
       = Inr (JList [history_entry (timedelta_days 19730) baseline_score])"
    by (simp add: agent_defs load_history_def)
  have h2: "load_history (ag_credit_score_history two_entry_agent)
       = Inr (JList [history_entry (timedelta_days 19730) baseline_score,
                     history_entry (timedelta_days 19737) raised_score])"
    by (simp add: agent_defs load_history_def)
  have s: "map entry_score [history_entry (timedelta_days 19730) baseline_score,
                       history_entry (timedelta_days 19737) raised_score]
       = map Inr [600, 650]"
    by (simp add: history_entry_def agent_defs)
  have t0: "get_credit_score_trend example_agent = Inr None"
    using trend_needs_two_entries [OF h0, of "[]", THEN conjunct1] by simp
  have t1: "get_credit_score_trend one_entry_agent = Inr None"
    using trend_needs_two_entries [OF h1, of "[]", THEN conjunct1] by simp
  have t2: "get_credit_score_trend two_entry_agent
              = Inr (Some \<lparr> trend_direction = 1, trend_magnitude = 50 \<rparr>)"
    using trend_needs_two_entries [OF h2, of "[600, 650]", THEN conjunct2, THEN conjunct2] s
    by simp
  from t0 t1 t2 h0 h1 h2 s show ?thesis by simp
qed

text \<open>C10. A repayment whose payment date or due date is missing is not late:
  \<^verbatim>\<open>Repayment.is_late\<close> returns \<^verbatim>\<open>False\<close>, and so is the \<^verbatim>\<open>is_late\<close> flag of every
  repayment entry with a missing date in the agent data that
  \<^verbatim>\<open>update_credit_score\<close> builds.\<close>

theorem missing_date_not_late:
  "(rp_payment_date r = None \<or> rp_due_date r = None \<longrightarrow>
      \<not> is_late r \<and> \<not> re_is_late (repayment_entry_of r))
   \<and> (\<forall>e \<in> set (ad_repayments (build_agent_data db self)).
        re_payment_date e = None \<or> re_due_date e = None \<longrightarrow> \<not> re_is_late e)"
  by (auto simp add: is_late_def repayment_entry_of_def build_agent_data_def
        split: option.splits)

theorem missing_date_not_late_witness:
  "rp_payment_date unpaid_repayment = None
   \<and> \<not> is_late unpaid_repayment
   \<and> ad_repayments (build_agent_data unpaid_db example_agent)
       = [repayment_entry_of unpaid_repayment]
   \<and> re_payment_date (repayment_entry_of unpaid_repayment) = None
   \<and> \<not> re_is_late (repayment_entry_of unpaid_repayment)"
proof -
  have p: "rp_payment_date unpaid_repayment = None"
    by (simp add: unpaid_repayment_def)
  have d: "ad_repayments (build_agent_data unpaid_db example_agent)
       = [repayment_entry_of unpaid_repayment]"
    by (simp add: build_agent_data_def example_defs agent_defs)
  have q: "re_payment_date (repayment_entry_of unpaid_repayment) = None"
    by (simp add: repayment_entry_of_def unpaid_repayment_def)
  from missing_date_not_late [of unpaid_repayment unpaid_db example_agent] p d q
  show ?thesis by simp
qed

end
